theory Spec2Isabelle
  imports Complex_Main
begin

section \<open>Strings\<close>

text \<open>
  A JavaScript string is a sequence of UTF-16 code units. The tag and keyword constants of
  the program are Chinese, so a string is modelled as the list of its code units, each a
  natural number below 65536 (written in hexadecimal below, one numeral per character:
  every character of the constants lies in the Basic Multilingual Plane). ASCII text is
  written through \<open>ascii\<close>.
\<close>

type_synonym jsstring = "nat list"

definition ascii :: "string \<Rightarrow> jsstring" where
  "ascii s = map of_char s"

text \<open>\<open>String.prototype.startsWith\<close> and \<open>String.prototype.includes\<close> (from position 0):
  the search string occurs as a contiguous run of code units.\<close>

fun startsWith :: "jsstring \<Rightarrow> jsstring \<Rightarrow> bool" where
  "startsWith s [] = True"
| "startsWith [] (k # ks) = False"
| "startsWith (c # cs) (k # ks) = (c = k \<and> startsWith cs ks)"

fun String_includes :: "jsstring \<Rightarrow> jsstring \<Rightarrow> bool" where
  "String_includes [] k = (k = [])"
| "String_includes (c # cs) k = (startsWith (c # cs) k \<or> String_includes cs k)"

text \<open>\<open>Array.prototype.join\<close> on an array of strings.\<close>

fun join :: "jsstring list \<Rightarrow> jsstring \<Rightarrow> jsstring" where
  "join [] sep = []"
| "join [x] sep = x"
| "join (x # y # zs) sep = x @ sep @ join (y # zs) sep"

text \<open>The text a template literal substitutes for a non-negative integer: its decimal
  digits (scores stay far below \<open>10^21\<close>, where JavaScript switches to exponent notation).\<close>

fun Number_toString :: "nat \<Rightarrow> jsstring" where
  "Number_toString n =
     (if n < 10 then [0x30 + n] else Number_toString (n div 10) @ [0x30 + n mod 10])"

declare Number_toString.simps [simp del]

section \<open>Data model (types.ts)\<close>

text \<open>Field names are the source's; \<open>id\<close> is written \<open>id'\<close>. Records that share a field name
  are told apart by qualification (\<open>Observation.tags\<close>, \<open>ObservationDraft.tags\<close>).\<close>

datatype IssueCategory = Text | Tts

datatype AnalysisWindow = Window_7d | Window_30d | Window_all

record Session =
  id' :: jsstring
  reporter_name :: jsstring
  tester_device :: "jsstring option"
  tester_os :: "jsstring option"
  created_at :: jsstring

text \<open>An observation's \<open>created_at\<close> is an ISO timestamp string that the analysis only ever
  reads through \<open>new Date(item.created_at)\<close>. The field holds the time value of that date,
  in milliseconds since the epoch; \<open>None\<close> is the Invalid Date of a string that does not
  parse.\<close>

record Observation =
  id' :: jsstring
  session_id :: jsstring
  course_name :: jsstring
  category :: IssueCategory
  tags :: "jsstring list"
  issue_description :: jsstring
  feeling_tags :: "jsstring list"
  feeling_other :: "jsstring option"
  created_at :: "int option"

record ObservationDraft =
  course_name :: jsstring
  tags :: "jsstring list"
  issue_description :: jsstring
  feeling_tags :: "jsstring list"
  feeling_other :: jsstring

record ClassificationResult =
  category :: IssueCategory
  reason :: jsstring

section \<open>Constants (constants.ts, types.ts)\<close>

definition textIssueTags :: "jsstring list" where
  "textIssueTags =
    [[0x5938, 0x5956, 0x5bc6, 0x5ea6, 0x8fc7, 0x9ad8],
     [0x53cd, 0x9988, 0x529b, 0x5ea6, 0x5931, 0x8861],
     [0x53e3, 0x8bed, 0x8bcd, 0x4e0d, 0x81ea, 0x7136],
     [0x6587, 0x672c, 0x8868, 0x8fbe, 0x522b, 0x626d],
     [0x5176, 0x4ed6]]"

definition ttsIssueTags :: "jsstring list" where
  "ttsIssueTags =
    [[0x53d1, 0x97f3, 0x9519, 0x8bef],
     [0x65ad, 0x53e5, 0x505c, 0x987f, 0x4e0d, 0x5408, 0x7406],
     [0x91cd, 0x8bfb, 0x5f02, 0x5e38],
     [0x8fde, 0x8bfb, 0x2f, 0x541e, 0x97f3],
     [0x8bed, 0x901f, 0x5f02, 0x5e38],
     [0x566a, 0x58f0, 0x2f, 0x6bdb, 0x523a],
     [0x5176, 0x4ed6]]"

text \<open>The literal that closes both tag arrays.\<close>

definition otherTag :: jsstring where
  "otherTag = [0x5176, 0x4ed6]"

definition textKeywords :: "jsstring list" where
  "textKeywords =
    [[0x5938, 0x5956],
     [0x5938, 0x9ebb, 0x6728],
     [0x53cd, 0x9988],
     [0x7b56, 0x7565],
     [0x53e3, 0x8bed],
     [0x4e0d, 0x81ea, 0x7136],
     [0x8868, 0x8fbe],
     [0x8fc7, 0x5934]]"

definition ttsKeywords :: "jsstring list" where
  "ttsKeywords =
    [[0x53d1, 0x97f3],
     [0x65ad, 0x53e5],
     [0x505c, 0x987f],
     [0x91cd, 0x8bfb],
     [0x8fde, 0x8bfb],
     [0x541e, 0x97f3],
     [0x8bed, 0x901f],
     [0x566a, 0x58f0],
     [0x6bdb, 0x523a],
     [0x8bfb, 0x97f3]]"

definition textTagSet :: "jsstring set" where
  "textTagSet = set textIssueTags"

definition ttsTagSet :: "jsstring set" where
  "ttsTagSet = set ttsIssueTags"

section \<open>Classifier (types.ts, getMatchScore and inferCategory)\<close>

definition getMatchScore :: "jsstring \<Rightarrow> jsstring list \<Rightarrow> nat" where
  "getMatchScore text keywords =
     foldl (\<lambda>sum keyword. if String_includes text keyword then sum + 1 else sum) 0 keywords"

text \<open>
  \<open>String.prototype.toLowerCase\<close> is a built-in of the runtime (Unicode case mapping). It
  is a parameter of the classifier: every theorem below holds for whatever function the
  runtime supplies. \<open>asciiLowerCase\<close> is the built-in restricted to ASCII letters, for
  running the classifier on concrete drafts.
\<close>

definition asciiLowerCase :: "jsstring \<Rightarrow> jsstring" where
  "asciiLowerCase s = map (\<lambda>c. if 0x41 \<le> c \<and> c \<le> 0x5a then c + 0x20 else c) s"

definition textTagScore :: "ObservationDraft \<Rightarrow> nat" where
  "textTagScore draft = length (filter (\<lambda>tag. tag \<in> textTagSet) (tags draft))"

definition ttsTagScore :: "ObservationDraft \<Rightarrow> nat" where
  "ttsTagScore draft = length (filter (\<lambda>tag. tag \<in> ttsTagSet) (tags draft))"

definition mergedText :: "(jsstring \<Rightarrow> jsstring) \<Rightarrow> ObservationDraft \<Rightarrow> jsstring" where
  "mergedText toLowerCase draft =
     toLowerCase (join [issue_description draft, join (tags draft) (ascii '' '')] (ascii '' ''))"

definition textKeywordScore :: "(jsstring \<Rightarrow> jsstring) \<Rightarrow> ObservationDraft \<Rightarrow> nat" where
  "textKeywordScore toLowerCase draft = getMatchScore (mergedText toLowerCase draft) textKeywords"

definition ttsKeywordScore :: "(jsstring \<Rightarrow> jsstring) \<Rightarrow> ObservationDraft \<Rightarrow> nat" where
  "ttsKeywordScore toLowerCase draft = getMatchScore (mergedText toLowerCase draft) ttsKeywords"

definition textScore :: "(jsstring \<Rightarrow> jsstring) \<Rightarrow> ObservationDraft \<Rightarrow> nat" where
  "textScore toLowerCase draft = textTagScore draft * 2 + textKeywordScore toLowerCase draft"

definition ttsScore :: "(jsstring \<Rightarrow> jsstring) \<Rightarrow> ObservationDraft \<Rightarrow> nat" where
  "ttsScore toLowerCase draft = ttsTagScore draft * 2 + ttsKeywordScore toLowerCase draft"

text \<open>The two reason templates and the two fixed default messages.\<close>

definition textReason :: "nat \<Rightarrow> nat \<Rightarrow> nat \<Rightarrow> jsstring" where
  "textReason score tagScore keywordScore =
     [0x6587, 0x672c, 0x5f97, 0x5206, 0x20] @ Number_toString score
     @ [0xff08, 0x6807, 0x7b7e, 0x20] @ Number_toString tagScore
     @ [0xff0c, 0x5173, 0x952e, 0x8bcd, 0x20] @ Number_toString keywordScore @ [0xff09]"

definition ttsReason :: "nat \<Rightarrow> nat \<Rightarrow> nat \<Rightarrow> jsstring" where
  "ttsReason score tagScore keywordScore =
     [0x54, 0x54, 0x53, 0x5f97, 0x5206, 0x20] @ Number_toString score
     @ [0xff08, 0x6807, 0x7b7e, 0x20] @ Number_toString tagScore
     @ [0xff0c, 0x5173, 0x952e, 0x8bcd, 0x20] @ Number_toString keywordScore @ [0xff09]"

definition tieTextReason :: jsstring where
  "tieTextReason =
     [0x6807, 0x7b7e, 0x5206, 0x6570, 0x63a5, 0x8fd1, 0xff0c, 0x9ed8, 0x8ba4, 0x5f52, 0x7c7b,
      0x4e3a, 0x6587, 0x672c, 0x95ee, 0x9898]"

definition tieTtsReason :: jsstring where
  "tieTtsReason =
     [0x65e0, 0x660e, 0x663e, 0x7ebf, 0x7d22, 0xff0c, 0x9ed8, 0x8ba4, 0x5f52, 0x7c7b, 0x4e3a,
      0x54, 0x54, 0x53, 0x95ee, 0x9898]"

definition inferCategory :: "(jsstring \<Rightarrow> jsstring) \<Rightarrow> ObservationDraft \<Rightarrow> ClassificationResult" where
  "inferCategory toLowerCase draft =
     (if textScore toLowerCase draft > ttsScore toLowerCase draft then
        \<lparr>category = Text,
         reason = textReason (textScore toLowerCase draft) (textTagScore draft)
                    (textKeywordScore toLowerCase draft)\<rparr>
      else if ttsScore toLowerCase draft > textScore toLowerCase draft then
        \<lparr>category = Tts,
         reason = ttsReason (ttsScore toLowerCase draft) (ttsTagScore draft)
                    (ttsKeywordScore toLowerCase draft)\<rparr>
      else if textTagScore draft > 0 then
        \<lparr>category = Text, reason = tieTextReason\<rparr>
      else
        \<lparr>category = Tts, reason = tieTtsReason\<rparr>)"

text \<open>\<open>toggleTag\<close> on a tag the draft does not hold yet appends it.\<close>

definition toggleTag :: "jsstring \<Rightarrow> ObservationDraft \<Rightarrow> ObservationDraft" where
  "toggleTag tag prev =
     (if tag \<in> set (tags prev)
      then prev\<lparr>tags := filter (\<lambda>item. item \<noteq> tag) (tags prev)\<rparr>
      else prev\<lparr>tags := tags prev @ [tag]\<rparr>)"

definition emptyObservationDraft :: ObservationDraft where
  "emptyObservationDraft =
     \<lparr>course_name = [], tags = [], issue_description = [], feeling_tags = [],
      feeling_other = []\<rparr>"

section \<open>Dates\<close>

text \<open>
  A valid \<open>Date\<close> is its time value, an integer number of milliseconds since the epoch
  (UTC). \<open>setHours\<close>, \<open>getDate\<close> and \<open>setDate\<close> work in local time, \<open>toISOString\<close> in UTC.
  Local time is modelled for a zone with a constant offset \<open>tz\<close> from UTC, in milliseconds
  (local time = UTC + \<open>tz\<close>; +28800000 for UTC+8): zones that change their offset
  (daylight saving time) are outside the model.
\<close>

definition msPerDay :: int where
  "msPerDay = 86400000"

text \<open>\<open>d.setHours(0, 0, 0, 0)\<close> and \<open>d.setHours(23, 59, 59, 999)\<close>.\<close>

definition startOfDay :: "int \<Rightarrow> int \<Rightarrow> int" where
  "startOfDay tz t = t - (t + tz) mod msPerDay"

definition endOfDay :: "int \<Rightarrow> int \<Rightarrow> int" where
  "endOfDay tz t = startOfDay tz t + (msPerDay - 1)"

text \<open>\<open>d.setDate(d.getDate() + k)\<close>: the same local time of day, \<open>k\<close> calendar days later.\<close>

definition addDays :: "int \<Rightarrow> int \<Rightarrow> int" where
  "addDays t k = t + k * msPerDay"

text \<open>The local calendar day of an instant, as a day number.\<close>

definition localDay :: "int \<Rightarrow> int \<Rightarrow> int" where
  "localDay tz t = (t + tz) div msPerDay"

datatype JsError = RangeError

text \<open>
  \<open>getDateKey(date) = date.toISOString().slice(0, 10)\<close>: the UTC calendar date
  \<open>YYYY-MM-DD\<close> of the instant. \<open>toISOString\<close> throws a RangeError on an Invalid Date. The
  date is identified by its day number since 1970-01-01 (for the four-digit years the
  program runs in, the ten characters determine the day number and are determined by it).
\<close>

definition getDateKey :: "int option \<Rightarrow> JsError + int" where
  "getDateKey date = (case date of None \<Rightarrow> Inl RangeError | Some t \<Rightarrow> Inr (t div msPerDay))"

text \<open>\<open>created >= start\<close> and \<open>created <= end\<close> on dates: a comparison with an Invalid Date
  (time value NaN) is false.\<close>

definition Date_ge :: "int option \<Rightarrow> int \<Rightarrow> bool" where
  "Date_ge created t = (case created of None \<Rightarrow> False | Some c \<Rightarrow> c \<ge> t)"

definition Date_le :: "int option \<Rightarrow> int \<Rightarrow> bool" where
  "Date_le created t = (case created of None \<Rightarrow> False | Some c \<Rightarrow> c \<le> t)"

section \<open>Objects used as count maps\<close>

text \<open>
  \<open>const m: Record<string, number> = {}\<close> is an ordinary object. It is modelled by the list
  of its own properties in creation order. Three points of the language matter here.
  \<^item> \<open>m[key]\<close> also finds the properties inherited from \<open>Object.prototype\<close>, so for such a
    key \<open>m[key] ?? 0\<close> is a function (or, for \<open>__proto__\<close>, an object), and adding 1 to it
    gives a string, not a count. \<open>NotACount\<close> stands for any such value.
  \<^item> Assigning a string to \<open>m['__proto__']\<close> changes nothing.
  \<^item> \<open>Object.entries\<close> lists the keys that are array indices first, in ascending numeric
    order, and the other keys after them in creation order.
\<close>

datatype count = Count nat | NotACount

definition objectPrototypeKeys :: "jsstring list" where
  "objectPrototypeKeys =
     map ascii [''constructor'', ''__defineGetter__'', ''__defineSetter__'', ''hasOwnProperty'',
       ''__lookupGetter__'', ''__lookupSetter__'', ''isPrototypeOf'', ''propertyIsEnumerable'',
       ''toString'', ''valueOf'', ''__proto__'', ''toLocaleString'']"

fun setProp :: "('k \<times> 'v) list \<Rightarrow> 'k \<Rightarrow> 'v \<Rightarrow> ('k \<times> 'v) list" where
  "setProp [] key v = [(key, v)]"
| "setProp ((k, w) # rest) key v =
     (if k = key then (k, v) # rest else (k, w) # setProp rest key v)"

text \<open>\<open>m[key] = (m[key] ?? 0) + 1\<close>.\<close>

definition bump :: "(jsstring \<times> count) list \<Rightarrow> jsstring \<Rightarrow> (jsstring \<times> count) list" where
  "bump m key =
     (let next =
        (case map_of m key of
           Some (Count n) \<Rightarrow> Count (n + 1)
         | Some NotACount \<Rightarrow> NotACount
         | None \<Rightarrow> if key \<in> set objectPrototypeKeys then NotACount else Count (0 + 1))
      in if key = ascii ''__proto__'' then m else setProp m key next)"

text \<open>An array index is the canonical decimal numeral of an integer from 0 to \<open>2^32 - 2\<close>.\<close>

definition indexValue :: "jsstring \<Rightarrow> nat" where
  "indexValue key = foldl (\<lambda>a c. 10 * a + (c - 0x30)) 0 key"

definition isArrayIndex :: "jsstring \<Rightarrow> bool" where
  "isArrayIndex key =
     (key \<noteq> [] \<and> list_all (\<lambda>c. 0x30 \<le> c \<and> c \<le> 0x39) key
      \<and> (key = [0x30] \<or> hd key \<noteq> 0x30) \<and> indexValue key < 2 ^ 32 - 1)"

definition Object_entries :: "(jsstring \<times> 'v) list \<Rightarrow> (jsstring \<times> 'v) list" where
  "Object_entries m =
     sort_key (\<lambda>e. indexValue (fst e)) (filter (\<lambda>e. isArrayIndex (fst e)) m)
     @ filter (\<lambda>e. \<not> isArrayIndex (fst e)) m"

text \<open>
  \<open>Array.prototype.sort\<close> with a comparator is a stable sort; the model is the stable
  insertion sort. The comparator \<open>(a, b) => b[1] - a[1]\<close> yields NaN when a value is not a
  number, which the sort reads as \<open>+0\<close>. (Such a comparator is not consistent, and the
  language then leaves the order to the implementation: the theorems on the order of a top
  list are about maps whose values are all counts.)
\<close>

fun insertBy :: "('a \<Rightarrow> 'a \<Rightarrow> int) \<Rightarrow> 'a \<Rightarrow> 'a list \<Rightarrow> 'a list" where
  "insertBy cmp x [] = [x]"
| "insertBy cmp x (y # ys) = (if cmp x y > 0 then y # insertBy cmp x ys else x # y # ys)"

definition Array_sort :: "('a \<Rightarrow> 'a \<Rightarrow> int) \<Rightarrow> 'a list \<Rightarrow> 'a list" where
  "Array_sort cmp xs = foldr (insertBy cmp) xs []"

definition compareCount :: "(jsstring \<times> count) \<Rightarrow> (jsstring \<times> count) \<Rightarrow> int" where
  "compareCount a b =
     (case (snd b, snd a) of (Count y, Count x) \<Rightarrow> int y - int x | _ \<Rightarrow> 0)"

section \<open>Aggregation (types.ts, analysisData)\<close>

record AnalysisData =
  windowDays :: "nat option"
  currentItems :: "Observation list"
  previousItems :: "Observation list"
  totalCount :: nat
  textCount :: nat
  ttsCount :: nat
  topTags :: "(jsstring \<times> count) list"
  topCourses :: "(jsstring \<times> count) list"
  topFeelings :: "(jsstring \<times> count) list"
  dailyTrend :: "(int \<times> nat) list"

definition windowDaysOf :: "AnalysisWindow \<Rightarrow> nat option" where
  "windowDaysOf analysisWindow =
     (if analysisWindow = Window_7d then Some 7
      else if analysisWindow = Window_30d then Some 30 else None)"

text \<open>\<open>now\<close> is the clock reading moved to the last millisecond of its local day.
  \<open>windowDays\<close> is 7, 30 or \<open>null\<close> (\<open>None\<close>), so \<open>if (windowDays)\<close> tests for \<open>null\<close>.\<close>

definition nowOf :: "int \<Rightarrow> int \<Rightarrow> int" where
  "nowOf tz clock = endOfDay tz clock"

definition currentStartOf :: "int \<Rightarrow> int \<Rightarrow> nat option \<Rightarrow> int option" where
  "currentStartOf tz now wd =
     (case wd of None \<Rightarrow> None
      | Some n \<Rightarrow> Some (addDays (startOfDay tz now) (- (int n - 1))))"

definition previousEndOf :: "int \<Rightarrow> int \<Rightarrow> nat option \<Rightarrow> int option" where
  "previousEndOf tz now wd =
     (case currentStartOf tz now wd of None \<Rightarrow> None | Some cs \<Rightarrow> Some (cs - 1))"

definition previousStartOf :: "int \<Rightarrow> int \<Rightarrow> nat option \<Rightarrow> int option" where
  "previousStartOf tz now wd =
     (case wd of None \<Rightarrow> None
      | Some n \<Rightarrow>
          (case previousEndOf tz now wd of None \<Rightarrow> None
           | Some pe \<Rightarrow> Some (addDays (startOfDay tz pe) (- (int n - 1)))))"

definition currentItemsOf :: "int option \<Rightarrow> int \<Rightarrow> Observation list \<Rightarrow> Observation list" where
  "currentItemsOf currentStart now observations =
     filter (\<lambda>item. case currentStart of None \<Rightarrow> True
               | Some cs \<Rightarrow> Date_ge (created_at item) cs \<and> Date_le (created_at item) now)
       observations"

definition previousItemsOf ::
  "int option \<Rightarrow> int option \<Rightarrow> Observation list \<Rightarrow> Observation list" where
  "previousItemsOf previousStart previousEnd observations =
     (case (previousStart, previousEnd) of
        (Some ps, Some pe) \<Rightarrow>
          filter (\<lambda>item. Date_ge (created_at item) ps \<and> Date_le (created_at item) pe)
            observations
      | _ \<Rightarrow> [])"

definition tagCountMap :: "Observation list \<Rightarrow> (jsstring \<times> count) list" where
  "tagCountMap items = foldl (\<lambda>m item. foldl bump m (Observation.tags item)) [] items"

definition courseCountMap :: "Observation list \<Rightarrow> (jsstring \<times> count) list" where
  "courseCountMap items = foldl (\<lambda>m item. bump m (Observation.course_name item)) [] items"

definition feelingCountMap :: "Observation list \<Rightarrow> (jsstring \<times> count) list" where
  "feelingCountMap items = foldl (\<lambda>m item. foldl bump m (Observation.feeling_tags item)) [] items"

text \<open>\<open>Object.entries(m).sort((a, b) => b[1] - a[1]).slice(0, 5)\<close>.\<close>

definition top5 :: "(jsstring \<times> count) list \<Rightarrow> (jsstring \<times> count) list" where
  "top5 m = take 5 (Array_sort compareCount (Object_entries m))"

definition trendDaysOf :: "nat option \<Rightarrow> nat" where
  "trendDaysOf wd = (case wd of None \<Rightarrow> 14 | Some n \<Rightarrow> n)"

definition trendStartOf :: "int \<Rightarrow> int \<Rightarrow> nat option \<Rightarrow> int" where
  "trendStartOf tz now wd = addDays (startOfDay tz now) (- (int (trendDaysOf wd) - 1))"

text \<open>The loop \<open>for (idx = 0; idx < trendDays; idx += 1)\<close> that creates the buckets, run over
  the indices it visits.\<close>

fun trendInit :: "int \<Rightarrow> nat list \<Rightarrow> (int \<times> nat) list \<Rightarrow> JsError + (int \<times> nat) list" where
  "trendInit trendStart [] m = Inr m"
| "trendInit trendStart (idx # rest) m =
     (case getDateKey (Some (addDays trendStart (int idx))) of
        Inl e \<Rightarrow> Inl e
      | Inr key \<Rightarrow> trendInit trendStart rest (setProp m key 0))"

definition trendSourceOf :: "nat option \<Rightarrow> int \<Rightarrow> Observation list \<Rightarrow> Observation list" where
  "trendSourceOf wd trendStart items =
     (if wd = None then filter (\<lambda>item. Date_ge (created_at item) trendStart) items
      else items)"

text \<open>\<open>if (key in m) { m[key] += 1 }\<close>, for a date key (never a name that
  \<open>Object.prototype\<close> holds, and never an array index, so that \<open>Object.entries\<close> lists the
  buckets in creation order).\<close>

definition trendAdd :: "(int \<times> nat) list \<Rightarrow> int \<Rightarrow> (int \<times> nat) list" where
  "trendAdd m key =
     (case map_of m key of None \<Rightarrow> m | Some n \<Rightarrow> setProp m key (n + 1))"

fun trendCount :: "(int \<times> nat) list \<Rightarrow> Observation list \<Rightarrow> JsError + (int \<times> nat) list" where
  "trendCount m [] = Inr m"
| "trendCount m (item # rest) =
     (case getDateKey (created_at item) of
        Inl e \<Rightarrow> Inl e
      | Inr key \<Rightarrow> trendCount (trendAdd m key) rest)"

definition dailyTrendOf ::
  "int \<Rightarrow> int \<Rightarrow> nat option \<Rightarrow> Observation list \<Rightarrow> JsError + (int \<times> nat) list" where
  "dailyTrendOf tz now wd items =
     (let trendDays = trendDaysOf wd;
          trendStart = trendStartOf tz now wd
      in case trendInit trendStart [0..<trendDays] [] of
           Inl e \<Rightarrow> Inl e
         | Inr trendCountMap \<Rightarrow>
             trendCount trendCountMap (trendSourceOf wd trendStart items))"

definition analysisData ::
  "int \<Rightarrow> int \<Rightarrow> AnalysisWindow \<Rightarrow> Observation list \<Rightarrow> JsError + AnalysisData" where
  "analysisData tz clock analysisWindow observations =
     (let now = nowOf tz clock;
          wd = windowDaysOf analysisWindow;
          currentStart = currentStartOf tz now wd;
          previousEnd = previousEndOf tz now wd;
          previousStart = previousStartOf tz now wd;
          cur = currentItemsOf currentStart now observations;
          prev = previousItemsOf previousStart previousEnd observations
      in case dailyTrendOf tz now wd cur of
           Inl e \<Rightarrow> Inl e
         | Inr trend \<Rightarrow>
             Inr \<lparr>windowDays = wd,
                  currentItems = cur,
                  previousItems = prev,
                  totalCount = length cur,
                  textCount = length (filter (\<lambda>item. Observation.category item = Text) cur),
                  ttsCount = length (filter (\<lambda>item. Observation.category item = Tts) cur),
                  topTags = top5 (tagCountMap cur),
                  topCourses = top5 (courseCountMap cur),
                  topFeelings = top5 (feelingCountMap cur),
                  dailyTrend = trend\<rparr>)"

section \<open>Summary (types.ts, summaryText)\<close>

text \<open>
  Counts are integers, exact in a JavaScript number. A quotient is modelled by the exact
  rational number (the rounding of the quotient to a double is not modelled); a division by
  zero gives \<open>NaN\<close> for \<open>0 / 0\<close> and an infinity otherwise. \<open>x.toFixed(1)\<close> is given by the
  number of tenths it prints (\<open>667\<close> for \<open>66.7\<close>), the integer nearest to \<open>10 x\<close>, the larger
  one on a tie; it is only applied to numbers that are not negative. For \<open>NaN\<close> and the
  infinities it prints their names.
\<close>

datatype jsnumber = Finite rat | PosInfinity | NegInfinity | NaN

text \<open>\<open>a / b\<close> and \<open>(a - b) / c\<close> on counts.\<close>

definition divide_js :: "nat \<Rightarrow> nat \<Rightarrow> jsnumber" where
  "divide_js a b =
     (if b = 0 then (if a = 0 then NaN else PosInfinity) else Finite (of_nat a / of_nat b))"

definition minus_divide_js :: "nat \<Rightarrow> nat \<Rightarrow> nat \<Rightarrow> jsnumber" where
  "minus_divide_js a b c =
     (if c = 0 then (if a = b then NaN else if b < a then PosInfinity else NegInfinity)
      else Finite ((of_nat a - of_nat b) / of_nat c))"

definition times100 :: "jsnumber \<Rightarrow> jsnumber" where
  "times100 x = (case x of Finite r \<Rightarrow> Finite (r * 100) | other \<Rightarrow> other)"

definition Math_abs :: "jsnumber \<Rightarrow> jsnumber" where
  "Math_abs x =
     (case x of Finite r \<Rightarrow> Finite \<bar>r\<bar> | NaN \<Rightarrow> NaN | other \<Rightarrow> PosInfinity)"

text \<open>\<open>x >= 0\<close>.\<close>

definition ge_zero :: "jsnumber \<Rightarrow> bool" where
  "ge_zero x = (case x of Finite r \<Rightarrow> 0 \<le> r | PosInfinity \<Rightarrow> True | other \<Rightarrow> False)"

datatype fixed1 = Tenths int | NonFiniteText

definition toFixed1 :: "jsnumber \<Rightarrow> fixed1" where
  "toFixed1 x = (case x of Finite r \<Rightarrow> Tenths \<lfloor>r * 10 + 1 / 2\<rfloor> | other \<Rightarrow> NonFiniteText)"

definition formatPercent :: "jsnumber \<Rightarrow> fixed1" where
  "formatPercent v = toFixed1 (times100 v)"

text \<open>The alternatives of the two guarded template parts, with the values they print.\<close>

datatype RatioText = NoData | Ratio fixed1 fixed1

datatype Direction = Up | Down

datatype CompareText = NoPreviousPeriod | Compare nat Direction fixed1

definition ratioText :: "AnalysisData \<Rightarrow> RatioText" where
  "ratioText a =
     (if totalCount a > 0
      then Ratio (formatPercent (divide_js (textCount a) (totalCount a)))
                 (formatPercent (divide_js (ttsCount a) (totalCount a)))
      else NoData)"

definition diffOf :: "AnalysisData \<Rightarrow> jsnumber" where
  "diffOf a =
     times100 (minus_divide_js (totalCount a) (length (previousItems a))
                 (length (previousItems a)))"

definition compareText :: "AnalysisData \<Rightarrow> CompareText" where
  "compareText a =
     (if windowDays a \<noteq> None \<and> windowDays a \<noteq> Some 0 \<and> length (previousItems a) > 0
      then
        (let diff = diffOf a;
             direction = (if ge_zero diff then Up else Down)
         in Compare (length (previousItems a)) direction (toFixed1 (Math_abs diff)))
      else NoPreviousPeriod)"

record SummaryText =
  periodLabel :: AnalysisWindow
  total :: nat
  ratio :: RatioText
  compare :: CompareText
  topTagText :: "(nat \<times> jsstring \<times> count) list"
  topCourseText :: "(nat \<times> jsstring \<times> count) list"
  topFeelingText :: "(nat \<times> jsstring \<times> count) list"
  samples :: "(nat \<times> jsstring \<times> jsstring \<times> jsstring) list"

text \<open>\<open>xs.map((x, idx) => ... idx + 1 ...)\<close>.\<close>

definition numbered :: "'a list \<Rightarrow> (nat \<times> 'a) list" where
  "numbered xs = zip [1..<length xs + 1] xs"

text \<open>\<open>new Map(sessions.map((session) => [session.id, session]))\<close>: a later session wins.\<close>

definition sessionMap :: "Session list \<Rightarrow> jsstring \<Rightarrow> Session option" where
  "sessionMap sessions = map_of (rev (map (\<lambda>session. (Session.id' session, session)) sessions))"

definition unknownReporter :: jsstring where
  "unknownReporter = [0x672a, 0x77e5]"

definition summaryText :: "AnalysisWindow \<Rightarrow> Session list \<Rightarrow> AnalysisData \<Rightarrow> SummaryText" where
  "summaryText analysisWindow sessions a =
     \<lparr>periodLabel = analysisWindow,
      total = totalCount a,
      ratio = ratioText a,
      compare = compareText a,
      topTagText = numbered (topTags a),
      topCourseText = numbered (topCourses a),
      topFeelingText = numbered (topFeelings a),
      samples =
        numbered (map (\<lambda>item.
            (Observation.course_name item, Observation.issue_description item,
             (case sessionMap sessions (session_id item) of
                None \<Rightarrow> unknownReporter
              | Some session \<Rightarrow> reporter_name session)))
          (take 3 (currentItems a)))\<rparr>"

text \<open>The report of one rendering: the aggregation, then the summary built from it.\<close>

definition report ::
  "int \<Rightarrow> int \<Rightarrow> AnalysisWindow \<Rightarrow> Session list \<Rightarrow> Observation list
     \<Rightarrow> JsError + (AnalysisData \<times> SummaryText)" where
  "report tz clock analysisWindow sessions observations =
     (case analysisData tz clock analysisWindow observations of
        Inl e \<Rightarrow> Inl e
      | Inr a \<Rightarrow> Inr (a, summaryText analysisWindow sessions a))"

section \<open>Reference definitions\<close>

subsection \<open>Sub-scores\<close>

text \<open>The sub-scores as the specification words them: the number of positions of the draft's
  tag list that hold a canonical tag, and the number of keywords that occur somewhere in the
  scan string.\<close>

definition spec_tagScore :: "jsstring set \<Rightarrow> jsstring list \<Rightarrow> nat" where
  "spec_tagScore canonical ts = card {i. i < length ts \<and> ts ! i \<in> canonical}"

definition spec_occursIn :: "jsstring \<Rightarrow> jsstring \<Rightarrow> bool" where
  "spec_occursIn k s = (\<exists>p q. s = p @ k @ q)"

definition spec_keywordScore :: "jsstring list \<Rightarrow> jsstring \<Rightarrow> nat" where
  "spec_keywordScore keywords scan = card {k \<in> set keywords. spec_occursIn k scan}"

subsection \<open>Daily trend and period comparison\<close>

text \<open>The UTC day number of an observation's timestamp (0 for an Invalid Date, which never
  reaches the trend).\<close>

definition dateKeyOf :: "Observation \<Rightarrow> int" where
  "dateKeyOf item = (case created_at item of None \<Rightarrow> 0 | Some t \<Rightarrow> t div msPerDay)"

text \<open>The bucket keys that the initialisation loop of the daily trend creates: the UTC dates
  of the local midnights of the \<open>trendDays\<close> days that end today.\<close>

definition spec_bucketKeys :: "int \<Rightarrow> int \<Rightarrow> AnalysisWindow \<Rightarrow> int list" where
  "spec_bucketKeys tz clock w =
     map (\<lambda>idx. addDays (trendStartOf tz (nowOf tz clock) (windowDaysOf w)) (int idx) div msPerDay)
       [0..<trendDaysOf (windowDaysOf w)]"


subsection \<open>Rankings\<close>




text \<open>The distinct values of a list in the order of their first occurrence.\<close>

definition firstOccurrences :: "'a list \<Rightarrow> 'a list" where
  "firstOccurrences xs = rev (remdups (rev xs))"

text \<open>The order in which \<open>Object.entries\<close> lists the keys of an object that was filled by
  meeting \<open>vals\<close> one after the other: the array indices in ascending numeric order, then
  the other keys in the order of their first occurrence.\<close>

definition spec_keyOrder :: "jsstring list \<Rightarrow> jsstring list" where
  "spec_keyOrder vals =
     sort_key indexValue (filter isArrayIndex (firstOccurrences vals))
     @ filter (\<lambda>k. \<not> isArrayIndex k) (firstOccurrences vals)"



section \<open>Example inputs\<close>

text \<open>Drafts with one tts tag, with one text tag, and with the shared tag only.\<close>

definition draftTts :: ObservationDraft where
  "draftTts = emptyObservationDraft\<lparr>tags := [[0x53d1, 0x97f3, 0x9519, 0x8bef]]\<rparr>"



text \<open>The draft with one tts tag again, with a course name, a feeling and a feeling text.\<close>

definition draftTtsFilled :: ObservationDraft where
  "draftTtsFilled =
     draftTts\<lparr>course_name := ascii ''Lesson 1'', feeling_tags := [otherTag],
       feeling_other := ascii ''flat''\<rparr>"

text \<open>
  Observations for a reader in the zone UTC+8 (\<open>tz = 28800000\<close>) whose clock shows
  2024-06-15 12:00 local time, that is 2024-06-15T04:00:00Z, time value 1718424000000, on
  day number 19889. One observation is made at that instant, one ten days earlier
  (2024-06-05T04:00:00Z), and one has a timestamp that does not parse.
\<close>

definition noonObservation :: Observation where
  "noonObservation =
     \<lparr>id' = ascii ''o1'', session_id = ascii ''s1'', course_name = ascii ''Lesson 1'',
      category = Tts, tags = [[0x53d1, 0x97f3, 0x9519, 0x8bef]],
      issue_description = ascii ''wrong tone'', feeling_tags = [otherTag],
      feeling_other = Some (ascii ''flat''), created_at = Some 1718424000000\<rparr>"

definition earlierObservation :: Observation where
  "earlierObservation =
     \<lparr>id' = ascii ''o2'', session_id = ascii ''s2'', course_name = ascii ''Lesson 2'',
      category = Text, tags = [[0x6587, 0x672c, 0x8868, 0x8fbe, 0x522b, 0x626d]],
      issue_description = ascii ''stiff wording'', feeling_tags = [otherTag],
      feeling_other = Some (ascii ''odd''), created_at = Some 1717560000000\<rparr>"

definition undatedObservation :: Observation where
  "undatedObservation = earlierObservation\<lparr>id' := ascii ''o3'', created_at := None\<rparr>"

definition exampleLog :: "Observation list" where
  "exampleLog = [noonObservation, earlierObservation, undatedObservation]"




section \<open>Properties of the classifier\<close>

subsection \<open>Substring search\<close>

lemma startsWith_iff: "startsWith s k \<longleftrightarrow> (\<exists>q. s = k @ q)"
  by (induction s k rule: startsWith.induct) auto

lemma String_includes_iff: "String_includes s k \<longleftrightarrow> (\<exists>p q. s = p @ k @ q)"
proof (induction s)
  case Nil
  then show ?case by simp
next
  case (Cons c cs)
  show ?case
  proof
    assume "String_includes (c # cs) k"
    then consider "startsWith (c # cs) k" | "String_includes cs k" by auto
    then show "\<exists>p q. c # cs = p @ k @ q"
    proof cases
      case 1
      then obtain q where "c # cs = k @ q" by (auto simp: startsWith_iff)
      then have "c # cs = [] @ k @ q" by simp
      then show ?thesis by blast
    next
      case 2
      then obtain p q where "cs = p @ k @ q" using Cons.IH by blast
      then have "c # cs = (c # p) @ k @ q" by simp
      then show ?thesis by blast
    qed
  next
    assume "\<exists>p q. c # cs = p @ k @ q"
    then obtain p q where pq: "c # cs = p @ k @ q" by blast
    show "String_includes (c # cs) k"
    proof (cases p)
      case Nil
      then have "startsWith (c # cs) k" using pq by (auto simp: startsWith_iff)
      then show ?thesis by simp
    next
      case (Cons a p')
      then have "cs = p' @ k @ q" using pq by simp
      then have "String_includes cs k" using Cons.IH by blast
      then show ?thesis by simp
    qed
  qed
qed

lemma getMatchScore_filter:
  "getMatchScore s kws = length (filter (String_includes s) kws)"
proof -
  have "foldl (\<lambda>sum keyword. if String_includes s keyword then sum + 1 else sum) a kws
        = a + length (filter (String_includes s) kws)" for a :: nat
    by (induction kws arbitrary: a) auto
  then show ?thesis by (simp add: getMatchScore_def)
qed

lemma getMatchScore_spec:
  assumes "distinct kws"
  shows "getMatchScore s kws = spec_keywordScore kws s"
proof -
  have eq: "{k \<in> set kws. spec_occursIn k s} = set (filter (String_includes s) kws)"
    by (auto simp: spec_occursIn_def String_includes_iff)
  have "distinct (filter (String_includes s) kws)" using assms by simp
  then have "card (set (filter (String_includes s) kws)) = length (filter (String_includes s) kws)"
    by (rule distinct_card)
  then show ?thesis
    unfolding getMatchScore_filter spec_keywordScore_def eq by simp
qed

lemma distinct_textKeywords: "distinct textKeywords"
  by (simp add: textKeywords_def)

lemma distinct_ttsKeywords: "distinct ttsKeywords"
  by (simp add: ttsKeywords_def)

lemma tagScore_spec: "length (filter (\<lambda>t. t \<in> S) ts) = spec_tagScore S ts"
  by (simp add: spec_tagScore_def length_filter_conv_card)

text \<open>
  Claim C2. For every draft the four sub-scores are the reference quantities:
  \<open>textTagScore\<close> and \<open>ttsTagScore\<close> count the positions of the draft's tag list whose tag
  is in the canonical text, respectively tts, tag set; \<open>textKeywordScore\<close> and
  \<open>ttsKeywordScore\<close> are the numbers of text, respectively tts, keywords that occur as a
  substring of the scan string, each keyword counted once however often it occurs. The scan
  string is the lowercased text made of the issue description, one space, and the tags
  joined by single spaces.
\<close>

theorem subscores_match_reference:
  "textTagScore d = spec_tagScore textTagSet (tags d)
   \<and> ttsTagScore d = spec_tagScore ttsTagSet (tags d)
   \<and> textKeywordScore lc d = spec_keywordScore textKeywords (mergedText lc d)
   \<and> ttsKeywordScore lc d = spec_keywordScore ttsKeywords (mergedText lc d)
   \<and> mergedText lc d = lc (issue_description d @ ascii '' '' @ join (tags d) (ascii '' ''))"
  by (simp add: textTagScore_def ttsTagScore_def tagScore_spec textKeywordScore_def
      ttsKeywordScore_def getMatchScore_spec distinct_textKeywords distinct_ttsKeywords
      mergedText_def)

text \<open>On the draft with the single tag of the tts set that contains a tts keyword, the
  reference quantities are 0, 1, 0 and 1.\<close>

theorem subscores_match_reference_witness:
  "spec_tagScore textTagSet (ObservationDraft.tags draftTts) = 0
   \<and> spec_tagScore ttsTagSet (ObservationDraft.tags draftTts) = 1
   \<and> spec_keywordScore textKeywords (mergedText asciiLowerCase draftTts) = 0
   \<and> spec_keywordScore ttsKeywords (mergedText asciiLowerCase draftTts) = 1
   \<and> mergedText asciiLowerCase draftTts = [0x20, 0x53d1, 0x97f3, 0x9519, 0x8bef]"
proof -
  have "textTagScore draftTts = 0 \<and> ttsTagScore draftTts = 1
        \<and> textKeywordScore asciiLowerCase draftTts = 0
        \<and> ttsKeywordScore asciiLowerCase draftTts = 1
        \<and> mergedText asciiLowerCase draftTts = [0x20, 0x53d1, 0x97f3, 0x9519, 0x8bef]"
    by (simp add: draftTts_def textTagScore_def ttsTagScore_def textKeywordScore_def
        ttsKeywordScore_def mergedText_def getMatchScore_def asciiLowerCase_def ascii_def
        textTagSet_def ttsTagSet_def textIssueTags_def ttsIssueTags_def textKeywords_def
        ttsKeywords_def emptyObservationDraft_def)
  then show ?thesis
    using subscores_match_reference [of draftTts asciiLowerCase] by argo
qed

lemma startsWith_append_sep:
  "c \<notin> set k \<Longrightarrow> startsWith (a @ c # b) k = startsWith a k"
proof (induction a arbitrary: k)
  case Nil
  then show ?case by (cases k) auto
next
  case (Cons x a)
  then show ?case by (cases k) auto
qed

lemma includes_split:
  assumes "k \<noteq> []" "c \<notin> set k"
  shows "String_includes (a @ c # b) k \<longleftrightarrow> String_includes a k \<or> String_includes b k"
proof (induction a)
  case Nil
  have "\<not> startsWith (c # b) k" using assms by (cases k) auto
  then show ?case using assms by simp
next
  case (Cons x a)
  have "startsWith (x # a @ c # b) k = startsWith (x # a) k"
    using startsWith_append_sep [OF assms(2), of "x # a" b] by simp
  then show ?case using Cons by auto
qed

lemma includes_join:
  assumes "k \<noteq> []" "c \<notin> set k"
  shows "String_includes (join ts [c]) k \<longleftrightarrow> (\<exists>t \<in> set ts. String_includes t k)"
proof (induction ts "[c]" rule: join.induct)
  case 1
  then show ?case using assms by simp
next
  case (2 x)
  then show ?case by simp
next
  case (3 x y zs)
  then show ?case using includes_split [OF assms, of x "join (y # zs) [c]"] by auto
qed

lemma includes_merged:
  assumes "k \<noteq> []" "0x20 \<notin> set k"
  shows "String_includes (join [desc, join ts (ascii '' '')] (ascii '' '')) k
         \<longleftrightarrow> String_includes desc k \<or> (\<exists>t \<in> set ts. String_includes t k)"
proof -
  have sp: "ascii '' '' = [0x20]" by (simp add: ascii_def)
  show ?thesis
    using includes_split [OF assms, of desc "join ts [0x20]"] includes_join [OF assms, of ts]
    by (simp add: sp)
qed

lemma keyword_shape:
  assumes "k \<in> set (textKeywords @ ttsKeywords)"
  shows "k \<noteq> [] \<and> 0x20 \<notin> set k \<and> \<not> String_includes otherTag k \<and> list_all (\<lambda>c. 0x80 \<le> c) k"
  using assms by (auto simp: textKeywords_def ttsKeywords_def otherTag_def)

lemma getMatchScore_cong:
  assumes "\<And>k. k \<in> set kws \<Longrightarrow> String_includes s k = String_includes s' k"
  shows "getMatchScore s kws = getMatchScore s' kws"
proof -
  have "filter (String_includes s) kws = filter (String_includes s') kws"
    using assms by (intro filter_cong) auto
  then show ?thesis by (simp add: getMatchScore_filter)
qed

lemma other_in_both: "otherTag \<in> textTagSet \<and> otherTag \<in> ttsTagSet"
  by (simp add: otherTag_def textTagSet_def ttsTagSet_def textIssueTags_def ttsIssueTags_def)

lemma inferCategory_category:
  "category (inferCategory lc d) =
     (if textScore lc d > ttsScore lc d then Text
      else if ttsScore lc d > textScore lc d then Tts
      else if textTagScore d > 0 then Text else Tts)"
  by (simp add: inferCategory_def)


lemmas classifier_eval =
  textScore_def ttsScore_def textTagScore_def ttsTagScore_def textKeywordScore_def
  ttsKeywordScore_def mergedText_def getMatchScore_def asciiLowerCase_def ascii_def
  textTagSet_def ttsTagSet_def textIssueTags_def ttsIssueTags_def textKeywords_def
  ttsKeywords_def otherTag_def emptyObservationDraft_def

lemma draftTts_scores:
  "textScore asciiLowerCase draftTts = 0 \<and> ttsScore asciiLowerCase draftTts = 3
   \<and> ttsTagScore draftTts = 1 \<and> ttsKeywordScore asciiLowerCase draftTts = 1"
  by (simp add: draftTts_def classifier_eval)



lemma draftEmpty_scores:
  "textScore asciiLowerCase emptyObservationDraft = 0
   \<and> ttsScore asciiLowerCase emptyObservationDraft = 0
   \<and> textTagScore emptyObservationDraft = 0"
  by (simp add: classifier_eval)


text \<open>
  Claim C9. \<open>inferCategory\<close> is a function of the draft's tags and issue description only:
  two drafts that agree on both get the same category and the same reason, whatever their
  course name, feeling tags and feeling text are. (As a function, it gives the same result
  each time it is applied to the same draft.)
\<close>

theorem inferCategory_depends_on_tags_and_description:
  "ObservationDraft.tags d1 = ObservationDraft.tags d2
   \<Longrightarrow> ObservationDraft.issue_description d1 = ObservationDraft.issue_description d2
   \<Longrightarrow> inferCategory lc d1 = inferCategory lc d2"
  by (simp add: inferCategory_def textScore_def ttsScore_def textTagScore_def ttsTagScore_def
      textKeywordScore_def ttsKeywordScore_def mergedText_def)

text \<open>Two drafts with the same tag and the same (empty) description, and different course
  names, feelings and feeling texts.\<close>

theorem inferCategory_depends_on_tags_and_description_witness:
  "ObservationDraft.tags draftTtsFilled = ObservationDraft.tags draftTts
   \<and> ObservationDraft.issue_description draftTtsFilled
       = ObservationDraft.issue_description draftTts
   \<and> ObservationDraft.course_name draftTtsFilled \<noteq> ObservationDraft.course_name draftTts
   \<and> ObservationDraft.feeling_tags draftTtsFilled \<noteq> ObservationDraft.feeling_tags draftTts
   \<and> ObservationDraft.feeling_other draftTtsFilled \<noteq> ObservationDraft.feeling_other draftTts
   \<and> inferCategory asciiLowerCase draftTtsFilled = inferCategory asciiLowerCase draftTts"
proof -
  have a: "ObservationDraft.tags draftTtsFilled = ObservationDraft.tags draftTts"
    by (simp add: draftTtsFilled_def)
  have b: "ObservationDraft.issue_description draftTtsFilled
           = ObservationDraft.issue_description draftTts"
    by (simp add: draftTtsFilled_def)
  show ?thesis
    using inferCategory_depends_on_tags_and_description [OF a b, of asciiLowerCase] a b
    by (simp add: draftTtsFilled_def draftTts_def emptyObservationDraft_def ascii_def
        otherTag_def)
qed

lemma includes_mergedText:
  assumes lc: "\<forall>s. \<forall>k \<in> set (textKeywords @ ttsKeywords).
                 String_includes (lc s) k = String_includes s k"
    and k: "k \<in> set (textKeywords @ ttsKeywords)"
  shows "String_includes (mergedText lc d) k
         = (String_includes (ObservationDraft.issue_description d) k
            \<or> (\<exists>t \<in> set (ObservationDraft.tags d). String_includes t k))"
proof -
  have shape: "k \<noteq> []" "0x20 \<notin> set k"
    using keyword_shape [OF k] by simp_all
  have "String_includes (mergedText lc d) k
        = String_includes (join [ObservationDraft.issue_description d,
            join (ObservationDraft.tags d) (ascii '' '')] (ascii '' '')) k"
    unfolding mergedText_def using lc k by blast
  then show ?thesis
    by (simp only: includes_merged [OF shape])
qed

lemma keywordScore_insert_other:
  assumes lc: "\<forall>s. \<forall>k \<in> set (textKeywords @ ttsKeywords).
                 String_includes (lc s) k = String_includes s k"
    and kws: "set kws \<subseteq> set (textKeywords @ ttsKeywords)"
    and d: "ObservationDraft.tags d = xs @ ys"
  shows "getMatchScore (mergedText lc (d\<lparr>tags := xs @ otherTag # ys\<rparr>)) kws
         = getMatchScore (mergedText lc d) kws"
proof (rule getMatchScore_cong)
  fix k assume "k \<in> set kws"
  then have k: "k \<in> set (textKeywords @ ttsKeywords)" using kws by blast
  have other: "\<not> String_includes otherTag k"
    using keyword_shape [OF k] by simp
  show "String_includes (mergedText lc (d\<lparr>tags := xs @ otherTag # ys\<rparr>)) k
        = String_includes (mergedText lc d) k"
    unfolding includes_mergedText [OF lc k] using other d by auto
qed

text \<open>
  Claim C3, as amended. The shared tag is a member of both canonical tag sets. Putting it
  anywhere into a draft's tag list adds 1 to \<open>textTagScore\<close> and 1 to \<open>ttsTagScore\<close> and
  leaves both keyword scores as they were, so it moves \<open>textScore\<close> and \<open>ttsScore\<close> by the
  same amount. The category stays what it was when the two scores differed; when they were
  tied the new category is text (the tie-break now sees a text tag), also for a draft that
  was tts before.
  The hypothesis on \<open>toLowerCase\<close> is that lowercasing does not change whether one of the
  program's keywords occurs in a string. The built-in has this property: the keywords
  consist of Chinese characters, which it maps to themselves and to which it maps no other
  character.
\<close>

theorem other_tag_effect:
  assumes lc: "\<forall>s. \<forall>k \<in> set (textKeywords @ ttsKeywords).
                 String_includes (lc s) k = String_includes s k"
    and d: "ObservationDraft.tags d = xs @ ys"
  shows "otherTag \<in> textTagSet \<and> otherTag \<in> ttsTagSet
    \<and> textTagScore (d\<lparr>tags := xs @ otherTag # ys\<rparr>) = textTagScore d + 1
    \<and> ttsTagScore (d\<lparr>tags := xs @ otherTag # ys\<rparr>) = ttsTagScore d + 1
    \<and> textKeywordScore lc (d\<lparr>tags := xs @ otherTag # ys\<rparr>) = textKeywordScore lc d
    \<and> ttsKeywordScore lc (d\<lparr>tags := xs @ otherTag # ys\<rparr>) = ttsKeywordScore lc d
    \<and> category (inferCategory lc (d\<lparr>tags := xs @ otherTag # ys\<rparr>))
        = (if textScore lc d = ttsScore lc d then Text else category (inferCategory lc d))"
proof -
  let ?d' = "d\<lparr>tags := xs @ otherTag # ys\<rparr>"
  have t1: "textTagScore ?d' = textTagScore d + 1"
    using other_in_both d by (simp add: textTagScore_def)
  have t2: "ttsTagScore ?d' = ttsTagScore d + 1"
    using other_in_both d by (simp add: ttsTagScore_def)
  have k1: "textKeywordScore lc ?d' = textKeywordScore lc d"
    unfolding textKeywordScore_def by (rule keywordScore_insert_other [OF lc _ d]) simp
  have k2: "ttsKeywordScore lc ?d' = ttsKeywordScore lc d"
    unfolding ttsKeywordScore_def by (rule keywordScore_insert_other [OF lc _ d]) simp
  have s1: "textScore lc ?d' = textScore lc d + 2" by (simp add: textScore_def t1 k1)
  have s2: "ttsScore lc ?d' = ttsScore lc d + 2" by (simp add: ttsScore_def t2 k2)
  have c: "category (inferCategory lc ?d')
        = (if textScore lc d = ttsScore lc d then Text else category (inferCategory lc d))"
    by (simp add: inferCategory_category s1 s2 t1)
  show ?thesis using other_in_both t1 t2 k1 k2 c by blast
qed

text \<open>Claim C3 as stated fails on the empty draft: it is classified tts, and after
  \<open>toggleTag\<close> has added the shared tag it is classified text. (The scan strings are a
  space, and a space followed by the tag: no letter that lowercasing could change.)\<close>

theorem other_tag_changes_category:
  "category (inferCategory asciiLowerCase emptyObservationDraft) = Tts
   \<and> toggleTag otherTag emptyObservationDraft = emptyObservationDraft\<lparr>tags := [otherTag]\<rparr>
   \<and> category (inferCategory asciiLowerCase (toggleTag otherTag emptyObservationDraft)) = Text"
  by (simp add: inferCategory_category toggleTag_def classifier_eval)

lemma startsWith_asciiLowerCase:
  "list_all (\<lambda>c. 0x80 \<le> c) k \<Longrightarrow> startsWith (asciiLowerCase s) k = startsWith s k"
proof (induction s k rule: startsWith.induct)
  case (1 s)
  then show ?case by simp
next
  case (2 k ks)
  then show ?case by (simp add: asciiLowerCase_def)
next
  case (3 c cs k ks)
  then show ?case by (auto simp: asciiLowerCase_def)
qed

lemma includes_asciiLowerCase:
  assumes "list_all (\<lambda>c. 0x80 \<le> c) k"
  shows "String_includes (asciiLowerCase s) k = String_includes s k"
proof (induction s)
  case Nil
  then show ?case by (simp add: asciiLowerCase_def)
next
  case (Cons c cs)
  have "startsWith (asciiLowerCase (c # cs)) k = startsWith (c # cs) k"
    by (rule startsWith_asciiLowerCase [OF assms])
  moreover have "asciiLowerCase (c # cs) = hd (asciiLowerCase (c # cs)) # asciiLowerCase cs"
    by (simp add: asciiLowerCase_def)
  ultimately show ?case using Cons
    by (metis String_includes.simps(2))
qed

lemma asciiLowerCase_keeps_keywords:
  "\<forall>s. \<forall>k \<in> set (textKeywords @ ttsKeywords).
     String_includes (asciiLowerCase s) k = String_includes s k"
  using keyword_shape includes_asciiLowerCase by blast

text \<open>The amended claim at a draft with one tts tag (the category stays tts) and at the
  empty draft (a tie, the category becomes text), with the ASCII lowercasing.\<close>

theorem other_tag_effect_witness:
  "ObservationDraft.tags draftTts = [[0x53d1, 0x97f3, 0x9519, 0x8bef]] @ []
   \<and> textTagScore (draftTts\<lparr>tags := [[0x53d1, 0x97f3, 0x9519, 0x8bef]] @ otherTag # []\<rparr>) = 1
   \<and> ttsTagScore (draftTts\<lparr>tags := [[0x53d1, 0x97f3, 0x9519, 0x8bef]] @ otherTag # []\<rparr>) = 2
   \<and> ttsKeywordScore asciiLowerCase
        (draftTts\<lparr>tags := [[0x53d1, 0x97f3, 0x9519, 0x8bef]] @ otherTag # []\<rparr>) = 1
   \<and> category (inferCategory asciiLowerCase
        (draftTts\<lparr>tags := [[0x53d1, 0x97f3, 0x9519, 0x8bef]] @ otherTag # []\<rparr>)) = Tts
   \<and> ObservationDraft.tags emptyObservationDraft = [] @ []
   \<and> category (inferCategory asciiLowerCase
        (emptyObservationDraft\<lparr>tags := [] @ otherTag # []\<rparr>)) = Text"
proof -
  have a: "ObservationDraft.tags draftTts = [[0x53d1, 0x97f3, 0x9519, 0x8bef]] @ []"
    by (simp add: draftTts_def emptyObservationDraft_def)
  have b: "ObservationDraft.tags emptyObservationDraft = [] @ []"
    by (simp add: emptyObservationDraft_def)
  have c: "category (inferCategory asciiLowerCase draftTts) = Tts"
    using draftTts_scores by (simp add: inferCategory_category)
  have s: "textTagScore draftTts = 0"
    by (simp add: draftTts_def classifier_eval)
  show ?thesis
    using other_tag_effect [OF asciiLowerCase_keeps_keywords a]
      other_tag_effect [OF asciiLowerCase_keeps_keywords b]
      a b c s draftTts_scores draftEmpty_scores
    by simp
qed

section \<open>Properties of the aggregation\<close>

subsection \<open>Local days\<close>

lemma msPerDay_pos: "0 < msPerDay"
  by (simp add: msPerDay_def)

lemma startOfDay_eq: "startOfDay tz t = localDay tz t * msPerDay - tz"
proof -
  have "(t + tz) = (t + tz) div msPerDay * msPerDay + (t + tz) mod msPerDay"
    by simp
  then show ?thesis unfolding startOfDay_def localDay_def by linarith
qed

lemma localDay_mult: "0 \<le> r \<Longrightarrow> r < msPerDay \<Longrightarrow> localDay tz (k * msPerDay - tz + r) = k"
  using msPerDay_pos by (simp add: localDay_def)

lemma localDay_startOfDay: "localDay tz (startOfDay tz t) = localDay tz t"
proof -
  have e: "startOfDay tz t = localDay tz t * msPerDay - tz + 0"
    by (simp add: startOfDay_eq)
  show ?thesis
    unfolding e by (rule localDay_mult) (use msPerDay_pos in simp_all)
qed

lemma localDay_endOfDay: "localDay tz (endOfDay tz t) = localDay tz t"
proof -
  have e: "endOfDay tz t = localDay tz t * msPerDay - tz + (msPerDay - 1)"
    by (simp add: endOfDay_def startOfDay_eq)
  show ?thesis
    unfolding e by (rule localDay_mult) (use msPerDay_pos in simp_all)
qed

lemma startOfDay_endOfDay: "startOfDay tz (endOfDay tz t) = startOfDay tz t"
  by (simp add: startOfDay_eq localDay_endOfDay)

lemma localDay_addDays: "localDay tz (addDays t k) = localDay tz t + k"
proof -
  have "addDays t k + tz = (t + tz) + msPerDay * k"
    by (simp add: addDays_def algebra_simps)
  then have "localDay tz (addDays t k) = ((t + tz) + msPerDay * k) div msPerDay"
    unfolding localDay_def by (rule arg_cong)
  also have "\<dots> = k + (t + tz) div msPerDay"
    using msPerDay_pos div_mult_self1 [of msPerDay "t + tz" k] by simp
  finally show ?thesis by (simp add: localDay_def)
qed

lemma startOfDay_addDays: "startOfDay tz (addDays t k) = addDays (startOfDay tz t) k"
  unfolding startOfDay_eq localDay_addDays by (simp add: addDays_def algebra_simps)

lemma startOfDay_idem: "startOfDay tz (startOfDay tz t) = startOfDay tz t"
  unfolding startOfDay_eq [of tz "startOfDay tz t"] localDay_startOfDay
  by (simp add: startOfDay_eq)

lemma localDay_pred_start: "localDay tz (startOfDay tz t - 1) = localDay tz t - 1"
proof -
  have e: "startOfDay tz t - 1 = (localDay tz t - 1) * msPerDay - tz + (msPerDay - 1)"
    by (simp add: startOfDay_eq algebra_simps)
  show ?thesis
    unfolding e by (rule localDay_mult) (use msPerDay_pos in simp_all)
qed

lemma endOfDay_pred_start: "endOfDay tz (startOfDay tz t - 1) = startOfDay tz t - 1"
proof -
  have "endOfDay tz (startOfDay tz t - 1) = (localDay tz t - 1) * msPerDay - tz + (msPerDay - 1)"
    unfolding endOfDay_def startOfDay_eq [of tz "startOfDay tz t - 1"] localDay_pred_start ..
  also have "\<dots> = startOfDay tz t - 1"
    by (simp add: startOfDay_eq algebra_simps)
  finally show ?thesis .
qed

lemma startOfDay_le: "startOfDay tz t \<le> t"
  using msPerDay_pos by (simp add: startOfDay_def)

lemma le_endOfDay: "t \<le> endOfDay tz t"
proof -
  have "(t + tz) mod msPerDay < msPerDay" using msPerDay_pos by simp
  then show ?thesis by (simp add: endOfDay_def startOfDay_def)
qed

subsection \<open>The daily trend\<close>

lemma setProp_keys:
  "map fst (setProp m k v) = (if k \<in> set (map fst m) then map fst m else map fst m @ [k])"
  by (induction m k v rule: setProp.induct) auto

lemma setProp_fresh: "k \<notin> set (map fst m) \<Longrightarrow> setProp m k v = m @ [(k, v)]"
  by (induction m k v rule: setProp.induct) auto

lemma trendInit_append:
  "trendInit ts (xs @ ys) m =
     (case trendInit ts xs m of Inl e \<Rightarrow> Inl e | Inr m' \<Rightarrow> trendInit ts ys m')"
  by (induction xs arbitrary: m) (auto simp: getDateKey_def)

lemma dayKey_addDays: "addDays ts (int i) div msPerDay = ts div msPerDay + int i"
proof -
  have "addDays ts (int i) = ts + msPerDay * int i" by (simp add: addDays_def)
  then show ?thesis
    using msPerDay_pos div_mult_self1 [of msPerDay ts "int i"] by simp
qed

lemma trendInit_upt:
  "trendInit ts [0..<n] [] = Inr (map (\<lambda>i. (ts div msPerDay + int i, 0)) [0..<n])"
proof (induction n)
  case 0
  then show ?case by simp
next
  case (Suc n)
  have fresh: "ts div msPerDay + int n \<notin> set (map fst (map (\<lambda>i. (ts div msPerDay + int i, 0::nat)) [0..<n]))"
    by (auto simp: comp_def)
  show ?case
    using Suc setProp_fresh [OF fresh, of 0]
    by (simp add: trendInit_append getDateKey_def dayKey_addDays)
qed

lemma trendAdd_keys: "map fst (trendAdd m key) = map fst m"
proof (cases "map_of m key")
  case None
  then show ?thesis by (simp add: trendAdd_def)
next
  case (Some n)
  then have "key \<in> set (map fst m)" by (auto dest: map_of_SomeD intro: rev_image_eqI)
  then show ?thesis using Some by (simp add: trendAdd_def setProp_keys)
qed


lemma setProp_distinct_map:
  "distinct (map fst m) \<Longrightarrow> map_of m key = Some n \<Longrightarrow>
   setProp m key v = map (\<lambda>(k, w). (k, if k = key then v else w)) m"
proof (induction m key v rule: setProp.induct)
  case (1 key v)
  then show ?case by simp
next
  case (2 k w rest key v)
  show ?case
  proof (cases "k = key")
    case True
    then have "key \<notin> set (map fst rest)" using 2(2) by simp
    then have "map (\<lambda>(k, w). (k, if k = key then v else w)) rest = rest"
      by (induction rest) auto
    then show ?thesis using True by simp
  next
    case False
    then show ?thesis using 2 by simp
  qed
qed

lemma trendAdd_distinct:
  assumes "distinct (map fst m)"
  shows "trendAdd m key = map (\<lambda>(k, v). (k, if k = key then v + 1 else v)) m"
proof (cases "map_of m key")
  case None
  then have "key \<notin> set (map fst m)" by (simp add: map_of_eq_None_iff)
  then have "map (\<lambda>(k, v). (k, if k = key then v + 1 else v)) m = m"
    by (induction m) auto
  then show ?thesis using None by (simp add: trendAdd_def)
next
  case (Some n)
  have "map (\<lambda>(k, w). (k, if k = key then n + 1 else w)) m
        = map (\<lambda>(k, v). (k, if k = key then v + 1 else v)) m"
    using assms Some
  proof (induction m)
    case Nil
    then show ?case by simp
  next
    case (Cons a m)
    obtain k w where a: "a = (k, w)" by (cases a)
    show ?case
    proof (cases "k = key")
      case True
      then have "key \<notin> set (map fst m)" using Cons.prems a by simp
      then have "map (\<lambda>(k, w). (k, if k = key then n + 1 else w)) m = m"
        and "map (\<lambda>(k, v). (k, if k = key then v + 1 else v)) m = m"
        by (induction m) auto
      then show ?thesis using True a Cons.prems by simp
    next
      case False
      then show ?thesis using Cons a by simp
    qed
  qed
  then show ?thesis
    using setProp_distinct_map [OF assms Some, of "n + 1"] Some by (simp add: trendAdd_def)
qed

lemma trendCount_result:
  assumes "distinct (map fst m)" "\<forall>item \<in> set items. created_at item \<noteq> None"
  shows "trendCount m items =
     Inr (map (\<lambda>(k, v). (k, v + length (filter (\<lambda>item. dateKeyOf item = k) items))) m)"
  using assms
proof (induction items arbitrary: m)
  case Nil
  then show ?case by simp
next
  case (Cons item items)
  obtain t where t: "created_at item = Some t" using Cons.prems(2) by auto
  have key: "getDateKey (created_at item) = Inr (dateKeyOf item)"
    by (simp add: t getDateKey_def dateKeyOf_def)
  have d: "distinct (map fst (trendAdd m (dateKeyOf item)))"
    using Cons.prems(1) by (simp add: trendAdd_keys)
  have "trendCount m (item # items) = trendCount (trendAdd m (dateKeyOf item)) items"
    by (simp add: key)
  also have "\<dots> = Inr (map (\<lambda>(k, v). (k, v + length (filter (\<lambda>item. dateKeyOf item = k) items)))
                      (trendAdd m (dateKeyOf item)))"
    using Cons.IH [OF d] Cons.prems(2) by simp
  also have "\<dots> = Inr (map (\<lambda>(k, v). (k, v + length (filter (\<lambda>item. dateKeyOf item = k) (item # items)))) m)"
    by (auto simp: trendAdd_distinct [OF Cons.prems(1)])
  finally show ?case .
qed

lemma trendSource_valid:
  "\<forall>item \<in> set (trendSourceOf wd ts (currentItemsOf (currentStartOf tz now wd) now observations)).
     created_at item \<noteq> None"
  by (cases wd) (auto simp: trendSourceOf_def currentItemsOf_def currentStartOf_def Date_ge_def
      split: option.splits)

lemma dailyTrendOf_result:
  assumes "\<forall>item \<in> set (trendSourceOf wd (trendStartOf tz now wd) items). created_at item \<noteq> None"
  shows "dailyTrendOf tz now wd items =
     Inr (map (\<lambda>i. (trendStartOf tz now wd div msPerDay + int i,
                    length (filter (\<lambda>item. dateKeyOf item = trendStartOf tz now wd div msPerDay + int i)
                      (trendSourceOf wd (trendStartOf tz now wd) items))))
            [0..<trendDaysOf wd])"
proof -
  let ?ts = "trendStartOf tz now wd"
  let ?m = "map (\<lambda>i. (?ts div msPerDay + int i, 0::nat)) [0..<trendDaysOf wd]"
  have d: "distinct (map fst ?m)"
    by (simp add: comp_def distinct_map inj_on_def)
  show ?thesis
    unfolding dailyTrendOf_def Let_def trendInit_upt
    using trendCount_result [OF d assms] by (simp add: comp_def)
qed

lemma analysisData_value:
  "analysisData tz clock w obs =
     Inr \<lparr>windowDays = windowDaysOf w,
          currentItems = currentItemsOf (currentStartOf tz (nowOf tz clock) (windowDaysOf w)) (nowOf tz clock) obs,
          previousItems = previousItemsOf (previousStartOf tz (nowOf tz clock) (windowDaysOf w))
                            (previousEndOf tz (nowOf tz clock) (windowDaysOf w)) obs,
          totalCount = length (currentItemsOf (currentStartOf tz (nowOf tz clock) (windowDaysOf w)) (nowOf tz clock) obs),
          textCount = length (filter (\<lambda>item. Observation.category item = Text)
                        (currentItemsOf (currentStartOf tz (nowOf tz clock) (windowDaysOf w)) (nowOf tz clock) obs)),
          ttsCount = length (filter (\<lambda>item. Observation.category item = Tts)
                        (currentItemsOf (currentStartOf tz (nowOf tz clock) (windowDaysOf w)) (nowOf tz clock) obs)),
          topTags = top5 (tagCountMap (currentItemsOf (currentStartOf tz (nowOf tz clock) (windowDaysOf w)) (nowOf tz clock) obs)),
          topCourses = top5 (courseCountMap (currentItemsOf (currentStartOf tz (nowOf tz clock) (windowDaysOf w)) (nowOf tz clock) obs)),
          topFeelings = top5 (feelingCountMap (currentItemsOf (currentStartOf tz (nowOf tz clock) (windowDaysOf w)) (nowOf tz clock) obs)),
          dailyTrend =
            map (\<lambda>i. (trendStartOf tz (nowOf tz clock) (windowDaysOf w) div msPerDay + int i,
                    length (filter (\<lambda>item. dateKeyOf item
                                = trendStartOf tz (nowOf tz clock) (windowDaysOf w) div msPerDay + int i)
                      (trendSourceOf (windowDaysOf w) (trendStartOf tz (nowOf tz clock) (windowDaysOf w))
                         (currentItemsOf (currentStartOf tz (nowOf tz clock) (windowDaysOf w)) (nowOf tz clock) obs)))))
              [0..<trendDaysOf (windowDaysOf w)]\<rparr>"
  unfolding analysisData_def Let_def dailyTrendOf_result [OF trendSource_valid] by simp

lemma spec_bucketKeys_eq:
  "spec_bucketKeys tz clock w =
     map (\<lambda>i. trendStartOf tz (nowOf tz clock) (windowDaysOf w) div msPerDay + int i)
       [0..<trendDaysOf (windowDaysOf w)]"
  by (simp add: spec_bucketKeys_def dayKey_addDays)


lemma length_filter_split:
  "k \<notin> K \<Longrightarrow> length (filter (\<lambda>x. f x = k \<or> f x \<in> K) xs)
     = length (filter (\<lambda>x. f x = k) xs) + length (filter (\<lambda>x. f x \<in> K) xs)"
  by (induction xs) auto

lemma sum_bucket_counts:
  "distinct ks \<Longrightarrow>
   sum_list (map (\<lambda>k. length (filter (\<lambda>x. f x = k) xs)) ks)
     = length (filter (\<lambda>x. f x \<in> set ks) xs)"
  by (induction ks) (simp_all add: length_filter_split)


text \<open>The sum of the buckets is the number of source observations whose UTC date is the key of
  a bucket.\<close>

lemma daily_trend_sum:
  "\<exists>a. analysisData tz clock w obs = Inr a
     \<and> sum_list (map snd (dailyTrend a))
         = length (filter (\<lambda>item. dateKeyOf item \<in> set (spec_bucketKeys tz clock w))
             (trendSourceOf (windowDaysOf w) (trendStartOf tz (nowOf tz clock) (windowDaysOf w))
                (currentItems a)))"
proof -
  let ?src = "trendSourceOf (windowDaysOf w) (trendStartOf tz (nowOf tz clock) (windowDaysOf w))
      (currentItemsOf (currentStartOf tz (nowOf tz clock) (windowDaysOf w)) (nowOf tz clock) obs)"
  have d: "distinct (spec_bucketKeys tz clock w)"
    by (simp add: spec_bucketKeys_eq distinct_map inj_on_def)
  have "map snd (map (\<lambda>i. (trendStartOf tz (nowOf tz clock) (windowDaysOf w) div msPerDay + int i,
          length (filter (\<lambda>item. dateKeyOf item
             = trendStartOf tz (nowOf tz clock) (windowDaysOf w) div msPerDay + int i) ?src)))
        [0..<trendDaysOf (windowDaysOf w)])
      = map (\<lambda>k. length (filter (\<lambda>item. dateKeyOf item = k) ?src)) (spec_bucketKeys tz clock w)"
    by (simp add: spec_bucketKeys_eq comp_def)
  then show ?thesis
    using sum_bucket_counts [OF d, of dateKeyOf ?src]
    by (simp add: analysisData_value)
qed

lemma eval_now: "nowOf 28800000 1718424000000 = 1718467199999"
  by (simp add: nowOf_def endOfDay_def startOfDay_def msPerDay_def)

lemma eval_windows7:
  "currentStartOf 28800000 1718467199999 (Some 7) = Some 1717862400000
   \<and> previousEndOf 28800000 1718467199999 (Some 7) = Some 1717862399999
   \<and> previousStartOf 28800000 1718467199999 (Some 7) = Some 1717257600000
   \<and> trendStartOf 28800000 1718467199999 (Some 7) = 1717862400000"
  by (simp add: currentStartOf_def previousEndOf_def previousStartOf_def trendStartOf_def
      trendDaysOf_def addDays_def startOfDay_def msPerDay_def)

lemma upt_7: "[0..<7] = [0, 1, 2, 3, 4, 5, 6]"
  by (simp add: upt_rec)


text \<open>
  Claim C6 at a concrete input: zone UTC+8, clock 2024-06-15 12:00 local time, window 7d,
  one observation made at that instant. The observation is a current item and its date key
  is 19889 (2024-06-15), which is also the local day and the UTC day of the clock. The
  buckets are the days 19882 to 19888 (2024-06-08 to 2024-06-14): the series ends yesterday,
  and the observation of today is counted nowhere.
\<close>

theorem trend_misses_today:
  "map_sum id currentItems (analysisData 28800000 1718424000000 Window_7d [noonObservation])
     = Inr [noonObservation]
   \<and> map_sum id dailyTrend (analysisData 28800000 1718424000000 Window_7d [noonObservation])
     = Inr [(19882, 0), (19883, 0), (19884, 0), (19885, 0), (19886, 0), (19887, 0),
            (19888, 0)]
   \<and> getDateKey (created_at noonObservation) = Inr 19889
   \<and> getDateKey (Some 1718424000000) = Inr 19889
   \<and> localDay 28800000 1718424000000 = 19889"
  by (simp add: analysisData_value eval_now windowDaysOf_def eval_windows7 trendDaysOf_def
      trendSourceOf_def currentItemsOf_def Date_ge_def Date_le_def noonObservation_def
      dateKeyOf_def msPerDay_def upt_7 getDateKey_def localDay_def)

subsection \<open>Windows\<close>

lemma addDays_le: "k \<le> 0 \<Longrightarrow> addDays t k \<le> t"
  using msPerDay_pos by (simp add: addDays_def mult_nonpos_nonneg)

lemma windowDaysOf_cases: "windowDaysOf w = Some n \<Longrightarrow> n = 7 \<or> n = 30"
  by (auto simp: windowDaysOf_def split: if_splits)

lemma in_range_filter:
  "filter (\<lambda>item. Date_ge (created_at item) lo \<and> Date_le (created_at item) hi) obs
   = filter (\<lambda>item. \<exists>c. created_at item = Some c \<and> lo \<le> c \<and> c \<le> hi) obs"
  by (intro filter_cong) (auto simp: Date_ge_def Date_le_def split: option.splits)

text \<open>
  Claim C4. For the window 7d or 30d (\<open>windowDaysOf w = Some n\<close>), any clock reading and any
  constant zone offset, with \<open>now\<close> the end of the clock's local day: \<open>currentStart\<close> is a
  start of day, \<open>n - 1\<close> calendar days before the day of \<open>now\<close>; \<open>previousEnd\<close> is
  \<open>currentStart\<close> minus one millisecond; \<open>previousStart\<close> is a start of day, \<open>n - 1\<close>
  calendar days before the day of \<open>previousEnd\<close>. The inclusive intervals
  \<open>[previousStart, previousEnd]\<close> and \<open>[currentStart, now]\<close> are disjoint
  (\<open>previousEnd < currentStart\<close>), contiguous (\<open>previousEnd + 1 = currentStart\<close>), start at a
  start of day and end at an end of day, and each covers \<open>n\<close> calendar days. The
  aggregation returns, and its \<open>currentItems\<close> and \<open>previousItems\<close> are exactly the
  observations whose \<open>created_at\<close> is a valid date in the respective interval, so that no
  observation is in both.
\<close>

theorem comparison_windows:
  assumes w: "windowDaysOf w = Some n"
  shows "\<exists>cs pe ps a.
      currentStartOf tz (nowOf tz clock) (windowDaysOf w) = Some cs
    \<and> previousEndOf tz (nowOf tz clock) (windowDaysOf w) = Some pe
    \<and> previousStartOf tz (nowOf tz clock) (windowDaysOf w) = Some ps
    \<and> analysisData tz clock w obs = Inr a
    \<and> (w = Window_7d \<and> n = 7 \<or> w = Window_30d \<and> n = 30)
    \<and> localDay tz (nowOf tz clock) = localDay tz clock
    \<and> startOfDay tz cs = cs \<and> localDay tz cs = localDay tz (nowOf tz clock) - (int n - 1)
    \<and> pe = cs - 1
    \<and> startOfDay tz ps = ps \<and> localDay tz ps = localDay tz pe - (int n - 1)
    \<and> endOfDay tz pe = pe \<and> endOfDay tz (nowOf tz clock) = nowOf tz clock
    \<and> ps \<le> pe \<and> pe < cs \<and> cs \<le> nowOf tz clock
    \<and> localDay tz pe - localDay tz ps + 1 = int n
    \<and> localDay tz (nowOf tz clock) - localDay tz cs + 1 = int n
    \<and> currentItems a
        = filter (\<lambda>item. \<exists>c. created_at item = Some c \<and> cs \<le> c \<and> c \<le> nowOf tz clock) obs
    \<and> previousItems a
        = filter (\<lambda>item. \<exists>c. created_at item = Some c \<and> ps \<le> c \<and> c \<le> pe) obs
    \<and> set (currentItems a) \<inter> set (previousItems a) = {}"
proof -
  let ?now = "nowOf tz clock"
  define cs where "cs = addDays (startOfDay tz ?now) (- (int n - 1))"
  define pe where "pe = cs - 1"
  define ps where "ps = addDays (startOfDay tz pe) (- (int n - 1))"
  have n: "1 \<le> n" using windowDaysOf_cases [OF w] by auto
  have wn: "w = Window_7d \<and> n = 7 \<or> w = Window_30d \<and> n = 30"
    using w by (cases w) (simp_all add: windowDaysOf_def)
  have c1: "currentStartOf tz ?now (windowDaysOf w) = Some cs"
    by (simp add: w currentStartOf_def cs_def)
  have c2: "previousEndOf tz ?now (windowDaysOf w) = Some pe"
    by (simp add: previousEndOf_def c1 pe_def)
  have c3: "previousStartOf tz ?now (windowDaysOf w) = Some ps"
    by (simp add: w previousStartOf_def c2 [unfolded w] ps_def)
  obtain a where a: "analysisData tz clock w obs = Inr a"
    by (simp add: analysisData_value)
  have today: "localDay tz ?now = localDay tz clock"
    by (simp add: nowOf_def localDay_endOfDay)
  have cs_start: "startOfDay tz cs = cs"
    by (simp add: cs_def startOfDay_addDays startOfDay_idem)
  have cs_day: "localDay tz cs = localDay tz ?now - (int n - 1)"
    by (simp add: cs_def localDay_addDays localDay_startOfDay)
  have pe_form: "pe = startOfDay tz cs - 1" by (simp add: pe_def cs_start)
  have pe_day: "localDay tz pe = localDay tz cs - 1"
    using localDay_pred_start [of tz cs] by (simp add: cs_start pe_def)
  have pe_end: "endOfDay tz pe = pe"
    unfolding pe_form by (rule endOfDay_pred_start)
  have now_end: "endOfDay tz ?now = ?now"
    unfolding nowOf_def endOfDay_def [of tz "endOfDay tz clock"] startOfDay_endOfDay
    by (simp add: endOfDay_def)
  have ps_start: "startOfDay tz ps = ps"
    by (simp add: ps_def startOfDay_addDays startOfDay_idem)
  have ps_day: "localDay tz ps = localDay tz pe - (int n - 1)"
    by (simp add: ps_def localDay_addDays localDay_startOfDay)
  have le1: "ps \<le> pe"
  proof -
    have "ps \<le> startOfDay tz pe" unfolding ps_def using n by (intro addDays_le) simp
    then show ?thesis using startOfDay_le [of tz pe] by linarith
  qed
  have le2: "pe < cs" by (simp add: pe_def)
  have le3: "cs \<le> ?now"
  proof -
    have "cs \<le> startOfDay tz ?now" unfolding cs_def using n by (intro addDays_le) simp
    then show ?thesis using startOfDay_le [of tz ?now] by linarith
  qed
  have days1: "localDay tz pe - localDay tz ps + 1 = int n" by (simp add: ps_day)
  have days2: "localDay tz ?now - localDay tz cs + 1 = int n" by (simp add: cs_day)
  have cur: "currentItems a
        = filter (\<lambda>item. \<exists>c. created_at item = Some c \<and> cs \<le> c \<and> c \<le> ?now) obs"
    using a by (auto simp: analysisData_value c1 currentItemsOf_def in_range_filter)
  have prev: "previousItems a
        = filter (\<lambda>item. \<exists>c. created_at item = Some c \<and> ps \<le> c \<and> c \<le> pe) obs"
    using a by (auto simp: analysisData_value c2 c3 previousItemsOf_def in_range_filter)
  have disj: "set (currentItems a) \<inter> set (previousItems a) = {}"
    unfolding cur prev using le2 by auto
  show ?thesis
    by (intro exI [of _ cs] exI [of _ pe] exI [of _ ps] exI [of _ a] conjI
        c1 c2 c3 a wn today cs_start cs_day pe_def ps_start ps_day pe_end now_end le1 le2 le3
        days1 days2 cur prev disj)
qed

lemma windowDaysOf_7d: "windowDaysOf Window_7d = Some 7"
  by (simp add: windowDaysOf_def)

text \<open>The 7-day windows of the example clock: the current one starts on 2024-06-09 00:00
  local time, the previous one on 2024-06-02 00:00; the example log splits accordingly.\<close>

theorem comparison_windows_witness:
  "windowDaysOf Window_7d = Some 7
   \<and> nowOf 28800000 1718424000000 = 1718467199999
   \<and> currentStartOf 28800000 1718467199999 (Some 7) = Some 1717862400000
   \<and> previousEndOf 28800000 1718467199999 (Some 7) = Some 1717862399999
   \<and> previousStartOf 28800000 1718467199999 (Some 7) = Some 1717257600000
   \<and> map_sum id currentItems (analysisData 28800000 1718424000000 Window_7d exampleLog)
       = Inr [noonObservation]
   \<and> map_sum id previousItems (analysisData 28800000 1718424000000 Window_7d exampleLog)
       = Inr [earlierObservation]"
proof -
  obtain cs pe ps a where
    cs: "currentStartOf 28800000 (nowOf 28800000 1718424000000) (windowDaysOf Window_7d) = Some cs"
    and pe: "previousEndOf 28800000 (nowOf 28800000 1718424000000) (windowDaysOf Window_7d) = Some pe"
    and ps: "previousStartOf 28800000 (nowOf 28800000 1718424000000) (windowDaysOf Window_7d) = Some ps"
    and a: "analysisData 28800000 1718424000000 Window_7d exampleLog = Inr a"
    and cur: "currentItems a
        = filter (\<lambda>item. \<exists>c. created_at item = Some c \<and> cs \<le> c
                    \<and> c \<le> nowOf 28800000 1718424000000) exampleLog"
    and prev: "previousItems a
        = filter (\<lambda>item. \<exists>c. created_at item = Some c \<and> ps \<le> c \<and> c \<le> pe) exampleLog"
    using comparison_windows [OF windowDaysOf_7d, of 28800000 1718424000000 exampleLog]
    by blast
  have v: "cs = 1717862400000" "pe = 1717862399999" "ps = 1717257600000"
    using cs pe ps eval_windows7 by (simp_all add: eval_now windowDaysOf_7d)
  have "currentItems a = [noonObservation]"
    unfolding cur v eval_now
    by (simp add: exampleLog_def noonObservation_def earlierObservation_def
        undatedObservation_def)
  moreover have "previousItems a = [earlierObservation]"
    unfolding prev v
    by (simp add: exampleLog_def noonObservation_def earlierObservation_def
        undatedObservation_def)
  ultimately show ?thesis
    using a eval_windows7 by (simp add: eval_now windowDaysOf_7d)
qed

subsection \<open>Summary\<close>


lemma previousItems_all: "previousItemsOf (previousStartOf tz now None) pe obs = []"
  by (simp add: previousItemsOf_def previousStartOf_def)

lemma windowDaysOf_None: "(windowDaysOf w = None) = (w = Window_all)"
  by (cases w) (simp_all add: windowDaysOf_def)

lemma windowDaysOf_not0: "windowDaysOf w \<noteq> Some 0"
  by (cases w) (simp_all add: windowDaysOf_def)






lemma top5_empty: "top5 [] = []"
  by (simp add: top5_def Object_entries_def Array_sort_def)

lemma reasons_nonempty:
  "reason (inferCategory lc d) \<noteq> []"
  by (simp add: inferCategory_def textReason_def ttsReason_def tieTextReason_def
      tieTtsReason_def)

text \<open>
  Claim C8. For every zone offset, clock reading, window, session list and observation log
  (empty logs, observations with empty strings, empty tag lists and timestamps that do not
  parse included) the aggregation and the summary return a result: no \<open>RangeError\<close> is
  raised. With \<open>totalCount = 0\<close> the ratio text is the "no data" text, otherwise both
  percentages are finite numbers; with no previous observation the comparison is the "no
  previous period" text, otherwise its magnitude is a finite number: no division by zero
  takes place. On the empty log the total is 0, the three top lists and the samples are
  empty and every trend bucket is 0. The classifier has no failing operation: for every
  draft it yields one of the two categories and a reason that is not the empty string.
\<close>

theorem report_total:
  "\<exists>a s. report tz clock w sessions obs = Inr (a, s)
     \<and> total s = totalCount a \<and> totalCount a = length (currentItems a)
     \<and> (totalCount a = 0 \<longrightarrow> ratio s = NoData)
     \<and> (0 < totalCount a \<longrightarrow> (\<exists>x y. ratio s = Ratio (Tenths x) (Tenths y)))
     \<and> (previousItems a = [] \<longrightarrow> compare s = NoPreviousPeriod)
     \<and> (previousItems a \<noteq> [] \<longrightarrow> (\<exists>p dir x. compare s = Compare p dir (Tenths x)))
     \<and> (obs = [] \<longrightarrow>
           totalCount a = 0 \<and> ratio s = NoData \<and> compare s = NoPreviousPeriod
           \<and> topTags a = [] \<and> topCourses a = [] \<and> topFeelings a = []
           \<and> map snd (dailyTrend a) = replicate (trendDaysOf (windowDaysOf w)) 0
           \<and> samples s = [])
     \<and> (category (inferCategory lc d) = Text \<or> category (inferCategory lc d) = Tts)
     \<and> reason (inferCategory lc d) \<noteq> []"
proof -
  obtain a where a: "analysisData tz clock w obs = Inr a"
    by (simp add: analysisData_value)
  define s where "s = summaryText w sessions a"
  have r: "report tz clock w sessions obs = Inr (a, s)"
    by (simp add: report_def a s_def)
  have wd: "windowDays a = windowDaysOf w" using a by (auto simp: analysisData_value)
  have tot: "total s = totalCount a" by (simp add: s_def summaryText_def)
  have len: "totalCount a = length (currentItems a)" using a by (auto simp: analysisData_value)
  have r0: "totalCount a = 0 \<longrightarrow> ratio s = NoData"
    by (simp add: s_def summaryText_def ratioText_def)
  have r1: "0 < totalCount a \<longrightarrow> (\<exists>x y. ratio s = Ratio (Tenths x) (Tenths y))"
    by (simp add: s_def summaryText_def ratioText_def formatPercent_def divide_js_def
        times100_def toFixed1_def)
  have c0: "previousItems a = [] \<longrightarrow> compare s = NoPreviousPeriod"
    by (simp add: s_def summaryText_def compareText_def)
  have prev_all: "w = Window_all \<longrightarrow> previousItems a = []"
    using a by (auto simp: analysisData_value windowDaysOf_def previousItems_all)
  have c1: "previousItems a \<noteq> [] \<longrightarrow> (\<exists>p dir x. compare s = Compare p dir (Tenths x))"
    using prev_all
    by (auto simp: s_def summaryText_def compareText_def diffOf_def wd windowDaysOf_None
        windowDaysOf_not0 Let_def minus_divide_js_def times100_def Math_abs_def toFixed1_def
        ge_zero_def)
  have e: "obs = [] \<longrightarrow>
           totalCount a = 0 \<and> ratio s = NoData \<and> compare s = NoPreviousPeriod
           \<and> topTags a = [] \<and> topCourses a = [] \<and> topFeelings a = []
           \<and> map snd (dailyTrend a) = replicate (trendDaysOf (windowDaysOf w)) 0
           \<and> samples s = []"
  proof
    assume obs: "obs = []"
    have cur: "currentItems a = []" and prev: "previousItems a = []"
      and tops: "topTags a = []" "topCourses a = []" "topFeelings a = []"
      and trend: "map snd (dailyTrend a) = replicate (trendDaysOf (windowDaysOf w)) 0"
      using a unfolding obs
      by (auto simp: analysisData_value currentItemsOf_def previousItemsOf_def tagCountMap_def
          courseCountMap_def feelingCountMap_def top5_empty trendSourceOf_def comp_def
          map_replicate_const split: option.splits)
    have "samples s = []" by (simp add: s_def summaryText_def cur numbered_def)
    then show "totalCount a = 0 \<and> ratio s = NoData \<and> compare s = NoPreviousPeriod
           \<and> topTags a = [] \<and> topCourses a = [] \<and> topFeelings a = []
           \<and> map snd (dailyTrend a) = replicate (trendDaysOf (windowDaysOf w)) 0
           \<and> samples s = []"
      using len cur prev tops trend r0 c0 by simp
  qed
  have cat: "category (inferCategory lc d) = Text \<or> category (inferCategory lc d) = Tts"
    by (cases "category (inferCategory lc d)") simp_all
  show ?thesis
    by (intro exI [of _ a] exI [of _ s] conjI r tot len r0 r1 c0 c1 e cat reasons_nonempty)
qed

text \<open>The empty log, a log whose only observation has no valid timestamp, and the empty
  draft.\<close>

theorem report_total_witness:
  "map_sum id (\<lambda>(a, s). (totalCount a, ratio s, compare s, topTags a, topCourses a,
       topFeelings a, map snd (dailyTrend a), samples s))
     (report 28800000 1718424000000 Window_7d [] [])
   = Inr (0, NoData, NoPreviousPeriod, [], [], [], [0, 0, 0, 0, 0, 0, 0], [])
   \<and> map_sum id (\<lambda>(a, s). (totalCount a, ratio s, compare s))
     (report 28800000 1718424000000 Window_7d [] [undatedObservation])
   = Inr (0, NoData, NoPreviousPeriod)
   \<and> category (inferCategory asciiLowerCase emptyObservationDraft) = Tts"
proof -
  obtain a s where r: "report 28800000 1718424000000 Window_7d [] [] = Inr (a, s)"
    and e: "[] = ([] :: Observation list) \<longrightarrow>
           totalCount a = 0 \<and> ratio s = NoData \<and> compare s = NoPreviousPeriod
           \<and> topTags a = [] \<and> topCourses a = [] \<and> topFeelings a = []
           \<and> map snd (dailyTrend a) = replicate (trendDaysOf (windowDaysOf Window_7d)) 0
           \<and> samples s = []"
    using report_total [of 28800000 1718424000000 Window_7d "[]" "[]" asciiLowerCase
        emptyObservationDraft]
    by (elim exE conjE) blast
  have seven: "replicate (trendDaysOf (windowDaysOf Window_7d)) (0::nat) = [0, 0, 0, 0, 0, 0, 0]"
    by (simp add: windowDaysOf_def trendDaysOf_def numeral_eq_Suc)
  have first: "map_sum id (\<lambda>(a, s). (totalCount a, ratio s, compare s, topTags a, topCourses a,
       topFeelings a, map snd (dailyTrend a), samples s))
     (report 28800000 1718424000000 Window_7d [] [])
   = Inr (0, NoData, NoPreviousPeriod, [], [], [], [0, 0, 0, 0, 0, 0, 0], [])"
    using e seven unfolding r by simp
  obtain b t where r2: "report 28800000 1718424000000 Window_7d [] [undatedObservation] = Inr (b, t)"
    and z: "totalCount b = length (currentItems b)"
           "totalCount b = 0 \<longrightarrow> ratio t = NoData"
           "previousItems b = [] \<longrightarrow> compare t = NoPreviousPeriod"
    using report_total [of 28800000 1718424000000 Window_7d "[]" "[undatedObservation]"
        asciiLowerCase emptyObservationDraft]
    by (elim exE conjE) (rule that, assumption+)
  have "map_sum id (\<lambda>(a, s). (currentItems a, previousItems a))
          (report 28800000 1718424000000 Window_7d [] [undatedObservation]) = Inr ([], [])"
    by (simp add: report_def analysisData_value eval_now windowDaysOf_def eval_windows7
        currentItemsOf_def previousItemsOf_def Date_ge_def Date_le_def undatedObservation_def)
  then have "currentItems b = []" "previousItems b = []" unfolding r2 by simp_all
  then have second: "map_sum id (\<lambda>(a, s). (totalCount a, ratio s, compare s))
     (report 28800000 1718424000000 Window_7d [] [undatedObservation])
   = Inr (0, NoData, NoPreviousPeriod)"
    using z unfolding r2 by simp
  have third: "category (inferCategory asciiLowerCase emptyObservationDraft) = Tts"
    using draftEmpty_scores by (simp add: inferCategory_category)
  show ?thesis using first second third by blast
qed

subsection \<open>Top lists\<close>


lemma set_firstOccurrences [simp]: "set (firstOccurrences xs) = set xs"
  by (simp add: firstOccurrences_def)

lemma distinct_firstOccurrences [simp]: "distinct (firstOccurrences xs)"
  by (simp add: firstOccurrences_def)













lemma set_spec_keyOrder [simp]: "set (spec_keyOrder vals) = set vals"
  by (auto simp: spec_keyOrder_def)

lemma distinct_spec_keyOrder [simp]: "distinct (spec_keyOrder vals)"
  by (auto simp: spec_keyOrder_def)














text \<open>A key that \<open>Object.prototype\<close> holds is outside the amended claim: the entry of the
  course name "constructor" carries no count.\<close>

lemma inherited_key_is_no_count:
  "top5 (courseCountMap [noonObservation\<lparr>Observation.course_name := ascii ''constructor''\<rparr>])
     = [(ascii ''constructor'', NotACount)]"
  by (simp add: top5_def courseCountMap_def noonObservation_def bump_def
        objectPrototypeKeys_def Object_entries_def Array_sort_def compareCount_def
        isArrayIndex_def)
     (simp add: ascii_def)

end
